theory Spec2Isabelle
  imports Main "HOL-Library.Sublist"
begin

section \<open>JSON values and the JavaScript operations the gateway applies to them\<close>

text \<open>
  Tool arguments and remote payloads are JSON values. The gateway never computes with a
  number: it forwards it or interpolates it into a string, so a number is held as the text
  that JavaScript's number-to-string conversion gives for it. An object is the list of its
  properties in insertion order; objects that come from a JSON parser have distinct keys.
  A JavaScript value that may be \<open>undefined\<close> is a \<open>json option\<close>, \<open>None\<close> being
  \<open>undefined\<close>.
\<close>

datatype json =
    JNull
  | JBool bool
  | JNum string
  | JStr string
  | JArr "json list"
  | JObj "(string \<times> json) list"

type_synonym obj = "(string \<times> json) list"

text \<open>\<open>Array.prototype.join(',')\<close> on strings that are already converted.\<close>

fun join_comma :: "string list \<Rightarrow> string" where
  "join_comma [] = []"
| "join_comma [s] = s"
| "join_comma (s # t # ts) = s @ '','' @ join_comma (t # ts)"

text \<open>
  \<open>String(v)\<close>, which is what a template literal \<open>`${v}`\<close> applies: an array is its
  elements joined by commas, \<open>null\<close> elements giving the empty string; an object is
  \<open>[object Object]\<close>.
\<close>

fun js_string :: "json \<Rightarrow> string" where
  "js_string JNull = ''null''"
| "js_string (JBool b) = (if b then ''true'' else ''false'')"
| "js_string (JNum t) = t"
| "js_string (JStr s) = s"
| "js_string (JArr xs) = join_comma (map (\<lambda>x. if x = JNull then [] else js_string x) xs)"
| "js_string (JObj ps) = ''[object Object]''"

definition tpl :: "json option \<Rightarrow> string" where
  "tpl v = (case v of None \<Rightarrow> ''undefined'' | Some j \<Rightarrow> js_string j)"

text \<open>Truthiness, as \<open>||\<close> tests it.\<close>

fun truthy :: "json \<Rightarrow> bool" where
  "truthy JNull = False"
| "truthy (JBool b) = b"
| "truthy (JNum t) = (t \<noteq> ''0'' \<and> t \<noteq> ''NaN'')"
| "truthy (JStr s) = (s \<noteq> [])"
| "truthy (JArr xs) = True"
| "truthy (JObj ps) = True"

text \<open>\<open>p.k\<close> on an object: \<open>undefined\<close> when the property is absent.\<close>

definition js_get :: "obj \<Rightarrow> string \<Rightarrow> json option" where
  "js_get p k = map_of p k"

text \<open>The rest object of \<open>const { k1, ..., kn, ...rest } = p\<close>.\<close>

definition rest :: "string list \<Rightarrow> obj \<Rightarrow> obj" where
  "rest ks p = filter (\<lambda>kv. fst kv \<notin> set ks) p"

text \<open>
  An object literal \<open>{ k1: v1, ..., kn: vn }\<close> as it is serialised: a property whose value
  is \<open>undefined\<close> is left out of the JSON body and of the query string.
\<close>

fun obj_lit :: "(string \<times> json option) list \<Rightarrow> obj" where
  "obj_lit [] = []"
| "obj_lit ((k, None) # fs) = obj_lit fs"
| "obj_lit ((k, Some v) # fs) = (k, v) # obj_lit fs"

text \<open>The shorthand literal \<open>{ k1, ..., kn }\<close> over variables destructured from \<open>p\<close>.\<close>

definition pick :: "string list \<Rightarrow> obj \<Rightarrow> obj" where
  "pick ks p = obj_lit (map (\<lambda>k. (k, js_get p k)) ks)"

definition keys :: "json option \<Rightarrow> string set" where
  "keys v = (case v of Some (JObj ps) \<Rightarrow> fst ` set ps | _ \<Rightarrow> {})"

section \<open>Requests, responses and errors\<close>

datatype http_verb = GET | POST | PUT | PATCH | DELETE

text \<open>
  What one call on the axios instance hands to the transport: the method, the URL relative
  to the base URL, \<open>config.params\<close> (the query) and the request data (the body).
\<close>

record request =
  http_method :: http_verb
  url :: string
  params :: "json option"
  body :: "json option"

record response =
  status :: nat
  data :: json

text \<open>
  A thrown JavaScript error: its \<open>message\<close> and, for an axios error raised on a received
  HTTP response, that \<open>response\<close>.
\<close>

datatype js_error = JsError (message: string) (response: "response option")

text \<open>
  The configured axios instance together with the remote API behind it: for each request
  the promise either rejects with an error or resolves with a response.
\<close>

type_synonym axios = "request \<Rightarrow> js_error + response"

text \<open>An asynchronous computation: what it throws or returns, and the requests it issued.\<close>

type_synonym 'a io = "(js_error + 'a) \<times> request list"

definition throw :: "js_error \<Rightarrow> 'a io" where
  "throw e = (Inl e, [])"

definition axios_request :: "axios \<Rightarrow> request \<Rightarrow> response io" where
  "axios_request ax req = (ax req, [req])"

definition axios_get :: "axios \<Rightarrow> string \<Rightarrow> json option \<Rightarrow> response io" where
  "axios_get ax u ps = axios_request ax \<lparr>http_method = GET, url = u, params = ps, body = None\<rparr>"

definition axios_delete :: "axios \<Rightarrow> string \<Rightarrow> json option \<Rightarrow> response io" where
  "axios_delete ax u d = axios_request ax \<lparr>http_method = DELETE, url = u, params = None, body = d\<rparr>"

definition axios_post :: "axios \<Rightarrow> string \<Rightarrow> json option \<Rightarrow> response io" where
  "axios_post ax u d = axios_request ax \<lparr>http_method = POST, url = u, params = None, body = d\<rparr>"

definition axios_put :: "axios \<Rightarrow> string \<Rightarrow> json option \<Rightarrow> response io" where
  "axios_put ax u d = axios_request ax \<lparr>http_method = PUT, url = u, params = None, body = d\<rparr>"

definition axios_patch :: "axios \<Rightarrow> string \<Rightarrow> json option \<Rightarrow> response io" where
  "axios_patch ax u d = axios_request ax \<lparr>http_method = PATCH, url = u, params = None, body = d\<rparr>"

text \<open>\<open>return response.data\<close> after the awaited call.\<close>

definition response_data :: "response io \<Rightarrow> json io" where
  "response_data r = (case fst r of Inl e \<Rightarrow> Inl e | Inr resp \<Rightarrow> Inr (data resp), snd r)"

text \<open>
  Reading \<open>typedArgs.k\<close>, and destructuring \<open>const { k, ... } = params\<close>: both throw a
  \<open>TypeError\<close> when the arguments are \<open>undefined\<close> (a call may omit them). The messages
  are those of Node.js.
\<close>

definition read_error :: "string \<Rightarrow> js_error" where
  "read_error k =
     JsError (''Cannot read properties of undefined (reading '' @ [CHR 0x27] @ k @ [CHR 0x27] @ '')'')
       None"

definition destructure_error :: "string \<Rightarrow> js_error" where
  "destructure_error k =
     JsError (''Cannot destructure property '' @ [CHR 0x27] @ k @ [CHR 0x27] @ '' of '' @
              [CHR 0x27] @ ''params'' @ [CHR 0x27] @ '' as it is undefined.'') None"

definition member :: "obj option \<Rightarrow> string \<Rightarrow> (json option \<Rightarrow> 'a io) \<Rightarrow> 'a io" where
  "member typedArgs k f =
     (case typedArgs of None \<Rightarrow> throw (read_error k) | Some p \<Rightarrow> f (js_get p k))"

definition destructure :: "obj option \<Rightarrow> string \<Rightarrow> (obj \<Rightarrow> 'a io) \<Rightarrow> 'a io" where
  "destructure ps k f = (case ps of None \<Rightarrow> throw (destructure_error k) | Some p \<Rightarrow> f p)"

section \<open>The remote call adapters\<close>

text \<open>
  One function per private method of \<open>FrontappMCPServer\<close>, in source order. Each issues
  one call on the axios instance and returns \<open>response.data\<close>. A method that takes
  \<open>params\<close> receives the tool arguments whole (\<open>ps\<close>); a method that takes an identifier
  receives the value the dispatcher read from the arguments.
\<close>

definition listConversations :: "axios \<Rightarrow> obj option \<Rightarrow> json io" where
  "listConversations ax ps =
     response_data (axios_get ax ''/conversations'' (map_option JObj ps))"

definition getConversation :: "axios \<Rightarrow> json option \<Rightarrow> json io" where
  "getConversation ax conversationId =
     response_data (axios_get ax (''/conversations/'' @ tpl conversationId) None)"

definition searchConversations ::
  "axios \<Rightarrow> json option \<Rightarrow> json option \<Rightarrow> json io" where
  "searchConversations ax query limit =
     response_data (axios_get ax ''/conversations/search''
       (Some (JObj (obj_lit [(''q'', query), (''limit'', limit)]))))"

definition updateConversation :: "axios \<Rightarrow> obj option \<Rightarrow> json io" where
  "updateConversation ax ps =
     destructure ps ''conversation_id'' (\<lambda>p.
       response_data (axios_patch ax (''/conversations/'' @ tpl (js_get p ''conversation_id''))
         (Some (JObj (rest [''conversation_id''] p)))))"

definition listConversationMessages :: "axios \<Rightarrow> obj option \<Rightarrow> json io" where
  "listConversationMessages ax ps =
     destructure ps ''conversation_id'' (\<lambda>p.
       response_data (axios_get ax (''/conversations/'' @ tpl (js_get p ''conversation_id'') @ ''/messages'')
         (Some (JObj (rest [''conversation_id''] p)))))"

definition getMessage :: "axios \<Rightarrow> json option \<Rightarrow> json io" where
  "getMessage ax messageId =
     response_data (axios_get ax (''/messages/'' @ tpl messageId) None)"

definition sendMessage :: "axios \<Rightarrow> obj option \<Rightarrow> json io" where
  "sendMessage ax ps =
     destructure ps ''channel_id'' (\<lambda>p.
       response_data (axios_post ax (''/channels/'' @ tpl (js_get p ''channel_id'') @ ''/messages'')
         (Some (JObj (rest [''channel_id''] p)))))"

definition replyToConversation :: "axios \<Rightarrow> obj option \<Rightarrow> json io" where
  "replyToConversation ax ps =
     destructure ps ''conversation_id'' (\<lambda>p.
       let endpoint = (if js_get p ''type'' = Some (JStr ''comment'') then ''comments'' else ''messages'') in
       response_data (axios_post ax (''/conversations/'' @ tpl (js_get p ''conversation_id'') @ ''/'' @ endpoint)
         (Some (JObj (rest [''conversation_id'', ''type''] p)))))"

definition listContacts :: "axios \<Rightarrow> obj option \<Rightarrow> json io" where
  "listContacts ax ps =
     response_data (axios_get ax ''/contacts'' (map_option JObj ps))"

definition getContact :: "axios \<Rightarrow> json option \<Rightarrow> json io" where
  "getContact ax contactId =
     response_data (axios_get ax (''/contacts/'' @ tpl contactId) None)"

definition createContact :: "axios \<Rightarrow> obj option \<Rightarrow> json io" where
  "createContact ax ps =
     response_data (axios_post ax ''/contacts'' (map_option JObj ps))"

definition updateContact :: "axios \<Rightarrow> obj option \<Rightarrow> json io" where
  "updateContact ax ps =
     destructure ps ''contact_id'' (\<lambda>p.
       response_data (axios_patch ax (''/contacts/'' @ tpl (js_get p ''contact_id''))
         (Some (JObj (rest [''contact_id''] p)))))"

definition listTeammates :: "axios \<Rightarrow> obj option \<Rightarrow> json io" where
  "listTeammates ax ps =
     response_data (axios_get ax ''/teammates'' (map_option JObj ps))"

definition getTeammate :: "axios \<Rightarrow> json option \<Rightarrow> json io" where
  "getTeammate ax teammateId =
     response_data (axios_get ax (''/teammates/'' @ tpl teammateId) None)"

definition listTags :: "axios \<Rightarrow> obj option \<Rightarrow> json io" where
  "listTags ax ps =
     response_data (axios_get ax ''/tags'' (map_option JObj ps))"

definition createTag :: "axios \<Rightarrow> obj option \<Rightarrow> json io" where
  "createTag ax ps =
     response_data (axios_post ax ''/tags'' (map_option JObj ps))"

definition listInboxes :: "axios \<Rightarrow> obj option \<Rightarrow> json io" where
  "listInboxes ax ps =
     response_data (axios_get ax ''/inboxes'' (map_option JObj ps))"

definition getInbox :: "axios \<Rightarrow> json option \<Rightarrow> json io" where
  "getInbox ax inboxId =
     response_data (axios_get ax (''/inboxes/'' @ tpl inboxId) None)"

definition listConversationComments :: "axios \<Rightarrow> json option \<Rightarrow> json io" where
  "listConversationComments ax conversationId =
     response_data (axios_get ax (''/conversations/'' @ tpl conversationId @ ''/comments'') None)"

definition addComment :: "axios \<Rightarrow> obj option \<Rightarrow> json io" where
  "addComment ax ps =
     destructure ps ''conversation_id'' (\<lambda>p.
       response_data (axios_post ax (''/conversations/'' @ tpl (js_get p ''conversation_id'') @ ''/comments'')
         (Some (JObj (rest [''conversation_id''] p)))))"

definition getAnalytics :: "axios \<Rightarrow> obj option \<Rightarrow> json io" where
  "getAnalytics ax ps =
     response_data (axios_get ax ''/analytics'' (map_option JObj ps))"

definition listAccounts :: "axios \<Rightarrow> obj option \<Rightarrow> json io" where
  "listAccounts ax ps =
     response_data (axios_get ax ''/accounts'' (map_option JObj ps))"

definition createAccount :: "axios \<Rightarrow> obj option \<Rightarrow> json io" where
  "createAccount ax ps =
     response_data (axios_post ax ''/accounts'' (map_option JObj ps))"

definition getAccount :: "axios \<Rightarrow> json option \<Rightarrow> json io" where
  "getAccount ax accountId =
     response_data (axios_get ax (''/accounts/'' @ tpl accountId) None)"

definition updateAccount :: "axios \<Rightarrow> obj option \<Rightarrow> json io" where
  "updateAccount ax ps =
     destructure ps ''account_id'' (\<lambda>p.
       response_data (axios_patch ax (''/accounts/'' @ tpl (js_get p ''account_id''))
         (Some (JObj (rest [''account_id''] p)))))"

definition deleteAccount :: "axios \<Rightarrow> json option \<Rightarrow> json io" where
  "deleteAccount ax accountId =
     response_data (axios_delete ax (''/accounts/'' @ tpl accountId) None)"

definition listAccountContacts :: "axios \<Rightarrow> obj option \<Rightarrow> json io" where
  "listAccountContacts ax ps =
     destructure ps ''account_id'' (\<lambda>p.
       response_data (axios_get ax (''/accounts/'' @ tpl (js_get p ''account_id'') @ ''/contacts'')
         (Some (JObj (rest [''account_id''] p)))))"

definition addContactToAccount :: "axios \<Rightarrow> obj option \<Rightarrow> json io" where
  "addContactToAccount ax ps =
     destructure ps ''account_id'' (\<lambda>p.
       response_data (axios_post ax (''/accounts/'' @ tpl (js_get p ''account_id'') @ ''/contacts'')
         (Some (JObj (pick [''contact_ids''] p)))))"

definition removeContactFromAccount :: "axios \<Rightarrow> obj option \<Rightarrow> json io" where
  "removeContactFromAccount ax ps =
     destructure ps ''account_id'' (\<lambda>p.
       response_data (axios_delete ax (''/accounts/'' @ tpl (js_get p ''account_id'') @ ''/contacts'')
         (Some (JObj (pick [''contact_ids''] p)))))"

definition deleteContact :: "axios \<Rightarrow> json option \<Rightarrow> json io" where
  "deleteContact ax contactId =
     response_data (axios_delete ax (''/contacts/'' @ tpl contactId) None)"

definition mergeContacts :: "axios \<Rightarrow> obj option \<Rightarrow> json io" where
  "mergeContacts ax ps =
     destructure ps ''source_contact_id'' (\<lambda>p.
       response_data (axios_post ax (''/contacts/merge'')
         (Some (JObj (pick [''source_contact_id'', ''target_contact_id''] p)))))"

definition listContactConversations :: "axios \<Rightarrow> obj option \<Rightarrow> json io" where
  "listContactConversations ax ps =
     destructure ps ''contact_id'' (\<lambda>p.
       response_data (axios_get ax (''/contacts/'' @ tpl (js_get p ''contact_id'') @ ''/conversations'')
         (Some (JObj (rest [''contact_id''] p)))))"

definition listContactNotes :: "axios \<Rightarrow> json option \<Rightarrow> json io" where
  "listContactNotes ax contactId =
     response_data (axios_get ax (''/contacts/'' @ tpl contactId @ ''/notes'') None)"

definition addContactNote :: "axios \<Rightarrow> obj option \<Rightarrow> json io" where
  "addContactNote ax ps =
     destructure ps ''contact_id'' (\<lambda>p.
       response_data (axios_post ax (''/contacts/'' @ tpl (js_get p ''contact_id'') @ ''/notes'')
         (Some (JObj (rest [''contact_id''] p)))))"

definition addContactHandle :: "axios \<Rightarrow> obj option \<Rightarrow> json io" where
  "addContactHandle ax ps =
     destructure ps ''contact_id'' (\<lambda>p.
       response_data (axios_post ax (''/contacts/'' @ tpl (js_get p ''contact_id'') @ ''/handles'')
         (Some (JObj (pick [''handle'', ''source''] p)))))"

definition deleteContactHandle :: "axios \<Rightarrow> obj option \<Rightarrow> json io" where
  "deleteContactHandle ax ps =
     destructure ps ''contact_id'' (\<lambda>p.
       response_data (axios_delete ax (''/contacts/'' @ tpl (js_get p ''contact_id'') @ ''/handles'')
         (Some (JObj (pick [''handle'', ''source''] p)))))"

definition listTeammateContacts :: "axios \<Rightarrow> obj option \<Rightarrow> json io" where
  "listTeammateContacts ax ps =
     destructure ps ''teammate_id'' (\<lambda>p.
       response_data (axios_get ax (''/teammates/'' @ tpl (js_get p ''teammate_id'') @ ''/contacts'')
         (Some (JObj (rest [''teammate_id''] p)))))"

definition createTeammateContact :: "axios \<Rightarrow> obj option \<Rightarrow> json io" where
  "createTeammateContact ax ps =
     destructure ps ''teammate_id'' (\<lambda>p.
       response_data (axios_post ax (''/teammates/'' @ tpl (js_get p ''teammate_id'') @ ''/contacts'')
         (Some (JObj (rest [''teammate_id''] p)))))"

definition listTeamContacts :: "axios \<Rightarrow> obj option \<Rightarrow> json io" where
  "listTeamContacts ax ps =
     destructure ps ''team_id'' (\<lambda>p.
       response_data (axios_get ax (''/teams/'' @ tpl (js_get p ''team_id'') @ ''/contacts'')
         (Some (JObj (rest [''team_id''] p)))))"

definition listChannels :: "axios \<Rightarrow> obj option \<Rightarrow> json io" where
  "listChannels ax ps =
     response_data (axios_get ax ''/channels'' (map_option JObj ps))"

definition createChannel :: "axios \<Rightarrow> obj option \<Rightarrow> json io" where
  "createChannel ax ps =
     response_data (axios_post ax ''/channels'' (map_option JObj ps))"

definition getChannel :: "axios \<Rightarrow> json option \<Rightarrow> json io" where
  "getChannel ax channelId =
     response_data (axios_get ax (''/channels/'' @ tpl channelId) None)"

definition updateChannel :: "axios \<Rightarrow> obj option \<Rightarrow> json io" where
  "updateChannel ax ps =
     destructure ps ''channel_id'' (\<lambda>p.
       response_data (axios_patch ax (''/channels/'' @ tpl (js_get p ''channel_id''))
         (Some (JObj (rest [''channel_id''] p)))))"

definition validateChannel :: "axios \<Rightarrow> json option \<Rightarrow> json io" where
  "validateChannel ax channelId =
     response_data (axios_post ax (''/channels/'' @ tpl channelId @ ''/validate'') None)"

definition listTeammateChannels :: "axios \<Rightarrow> json option \<Rightarrow> json io" where
  "listTeammateChannels ax teammateId =
     response_data (axios_get ax (''/teammates/'' @ tpl teammateId @ ''/channels'') None)"

definition listTeamChannels :: "axios \<Rightarrow> json option \<Rightarrow> json io" where
  "listTeamChannels ax teamId =
     response_data (axios_get ax (''/teams/'' @ tpl teamId @ ''/channels'') None)"

definition syncInboundMessage :: "axios \<Rightarrow> obj option \<Rightarrow> json io" where
  "syncInboundMessage ax ps =
     destructure ps ''channel_id'' (\<lambda>p.
       response_data (axios_post ax (''/channels/'' @ tpl (js_get p ''channel_id'') @ ''/inbound_messages'')
         (Some (JObj (rest [''channel_id''] p)))))"

definition syncOutboundMessage :: "axios \<Rightarrow> obj option \<Rightarrow> json io" where
  "syncOutboundMessage ax ps =
     destructure ps ''channel_id'' (\<lambda>p.
       response_data (axios_post ax (''/channels/'' @ tpl (js_get p ''channel_id'') @ ''/outbound_messages'')
         (Some (JObj (rest [''channel_id''] p)))))"

definition updateExternalMessageStatus :: "axios \<Rightarrow> obj option \<Rightarrow> json io" where
  "updateExternalMessageStatus ax ps =
     destructure ps ''channel_id'' (\<lambda>p.
       response_data (axios_put ax (''/channels/'' @ tpl (js_get p ''channel_id'') @ ''/messages/'' @ tpl (js_get p ''message_id'') @ ''/status'')
         (Some (JObj (pick [''status''] p)))))"

definition syncApplicationMessageTemplate :: "axios \<Rightarrow> obj option \<Rightarrow> json io" where
  "syncApplicationMessageTemplate ax ps =
     destructure ps ''channel_id'' (\<lambda>p.
       response_data (axios_put ax (''/channels/'' @ tpl (js_get p ''channel_id'') @ ''/application_message_templates'')
         (js_get p ''template'')))"

definition getComment :: "axios \<Rightarrow> json option \<Rightarrow> json io" where
  "getComment ax commentId =
     response_data (axios_get ax (''/comments/'' @ tpl commentId) None)"

definition updateComment :: "axios \<Rightarrow> obj option \<Rightarrow> json io" where
  "updateComment ax ps =
     destructure ps ''comment_id'' (\<lambda>p.
       response_data (axios_patch ax (''/comments/'' @ tpl (js_get p ''comment_id''))
         (Some (JObj (pick [''body''] p)))))"

definition listCommentMentions :: "axios \<Rightarrow> json option \<Rightarrow> json io" where
  "listCommentMentions ax commentId =
     response_data (axios_get ax (''/comments/'' @ tpl commentId @ ''/mentions'') None)"

definition addCommentReply :: "axios \<Rightarrow> obj option \<Rightarrow> json io" where
  "addCommentReply ax ps =
     destructure ps ''comment_id'' (\<lambda>p.
       response_data (axios_post ax (''/comments/'' @ tpl (js_get p ''comment_id'') @ ''/replies'')
         (Some (JObj (rest [''comment_id''] p)))))"

definition listContactGroups :: "axios \<Rightarrow> obj option \<Rightarrow> json io" where
  "listContactGroups ax ps =
     response_data (axios_get ax ''/contact_groups'' (map_option JObj ps))"

definition createContactGroup :: "axios \<Rightarrow> obj option \<Rightarrow> json io" where
  "createContactGroup ax ps =
     response_data (axios_post ax ''/contact_groups'' (map_option JObj ps))"

definition deleteContactGroup :: "axios \<Rightarrow> json option \<Rightarrow> json io" where
  "deleteContactGroup ax groupId =
     response_data (axios_delete ax (''/contact_groups/'' @ tpl groupId) None)"

definition listGroupContacts :: "axios \<Rightarrow> json option \<Rightarrow> json io" where
  "listGroupContacts ax groupId =
     response_data (axios_get ax (''/contact_groups/'' @ tpl groupId @ ''/contacts'') None)"

definition addContactsToGroup :: "axios \<Rightarrow> obj option \<Rightarrow> json io" where
  "addContactsToGroup ax ps =
     destructure ps ''group_id'' (\<lambda>p.
       response_data (axios_post ax (''/contact_groups/'' @ tpl (js_get p ''group_id'') @ ''/contacts'')
         (Some (JObj (pick [''contact_ids''] p)))))"

definition removeContactsFromGroup :: "axios \<Rightarrow> obj option \<Rightarrow> json io" where
  "removeContactsFromGroup ax ps =
     destructure ps ''group_id'' (\<lambda>p.
       response_data (axios_delete ax (''/contact_groups/'' @ tpl (js_get p ''group_id'') @ ''/contacts'')
         (Some (JObj (pick [''contact_ids''] p)))))"

definition listTeammateGroups :: "axios \<Rightarrow> json option \<Rightarrow> json io" where
  "listTeammateGroups ax teammateId =
     response_data (axios_get ax (''/teammates/'' @ tpl teammateId @ ''/contact_groups'') None)"

definition createTeammateGroup :: "axios \<Rightarrow> obj option \<Rightarrow> json io" where
  "createTeammateGroup ax ps =
     destructure ps ''teammate_id'' (\<lambda>p.
       response_data (axios_post ax (''/teammates/'' @ tpl (js_get p ''teammate_id'') @ ''/contact_groups'')
         (Some (JObj (rest [''teammate_id''] p)))))"

definition listTeamGroups :: "axios \<Rightarrow> json option \<Rightarrow> json io" where
  "listTeamGroups ax teamId =
     response_data (axios_get ax (''/teams/'' @ tpl teamId @ ''/contact_groups'') None)"

definition createTeamGroup :: "axios \<Rightarrow> obj option \<Rightarrow> json io" where
  "createTeamGroup ax ps =
     destructure ps ''team_id'' (\<lambda>p.
       response_data (axios_post ax (''/teams/'' @ tpl (js_get p ''team_id'') @ ''/contact_groups'')
         (Some (JObj (rest [''team_id''] p)))))"

definition listContactLists :: "axios \<Rightarrow> obj option \<Rightarrow> json io" where
  "listContactLists ax ps =
     response_data (axios_get ax ''/contact_lists'' (map_option JObj ps))"

definition createContactList :: "axios \<Rightarrow> obj option \<Rightarrow> json io" where
  "createContactList ax ps =
     response_data (axios_post ax ''/contact_lists'' (map_option JObj ps))"

definition deleteContactList :: "axios \<Rightarrow> json option \<Rightarrow> json io" where
  "deleteContactList ax listId =
     response_data (axios_delete ax (''/contact_lists/'' @ tpl listId) None)"

definition listContactListContacts :: "axios \<Rightarrow> obj option \<Rightarrow> json io" where
  "listContactListContacts ax ps =
     destructure ps ''list_id'' (\<lambda>p.
       response_data (axios_get ax (''/contact_lists/'' @ tpl (js_get p ''list_id'') @ ''/contacts'')
         (Some (JObj (rest [''list_id''] p)))))"

definition addContactsToList :: "axios \<Rightarrow> obj option \<Rightarrow> json io" where
  "addContactsToList ax ps =
     destructure ps ''list_id'' (\<lambda>p.
       response_data (axios_post ax (''/contact_lists/'' @ tpl (js_get p ''list_id'') @ ''/contacts'')
         (Some (JObj (pick [''contact_ids''] p)))))"

definition removeContactsFromList :: "axios \<Rightarrow> obj option \<Rightarrow> json io" where
  "removeContactsFromList ax ps =
     destructure ps ''list_id'' (\<lambda>p.
       response_data (axios_delete ax (''/contact_lists/'' @ tpl (js_get p ''list_id'') @ ''/contacts'')
         (Some (JObj (pick [''contact_ids''] p)))))"

definition listTeammateContactLists :: "axios \<Rightarrow> json option \<Rightarrow> json io" where
  "listTeammateContactLists ax teammateId =
     response_data (axios_get ax (''/teammates/'' @ tpl teammateId @ ''/contact_lists'') None)"

definition createTeammateContactList :: "axios \<Rightarrow> obj option \<Rightarrow> json io" where
  "createTeammateContactList ax ps =
     destructure ps ''teammate_id'' (\<lambda>p.
       response_data (axios_post ax (''/teammates/'' @ tpl (js_get p ''teammate_id'') @ ''/contact_lists'')
         (Some (JObj (rest [''teammate_id''] p)))))"

definition listTeamContactLists :: "axios \<Rightarrow> json option \<Rightarrow> json io" where
  "listTeamContactLists ax teamId =
     response_data (axios_get ax (''/teams/'' @ tpl teamId @ ''/contact_lists'') None)"

definition createTeamContactList :: "axios \<Rightarrow> obj option \<Rightarrow> json io" where
  "createTeamContactList ax ps =
     destructure ps ''team_id'' (\<lambda>p.
       response_data (axios_post ax (''/teams/'' @ tpl (js_get p ''team_id'') @ ''/contact_lists'')
         (Some (JObj (rest [''team_id''] p)))))"

definition createDiscussionConversation :: "axios \<Rightarrow> obj option \<Rightarrow> json io" where
  "createDiscussionConversation ax ps =
     response_data (axios_post ax ''/conversations'' (map_option JObj ps))"

definition updateConversationAssignee :: "axios \<Rightarrow> obj option \<Rightarrow> json io" where
  "updateConversationAssignee ax ps =
     destructure ps ''conversation_id'' (\<lambda>p.
       response_data (axios_put ax (''/conversations/'' @ tpl (js_get p ''conversation_id'') @ ''/assignee'')
         (Some (JObj (pick [''assignee_id''] p)))))"

definition listConversationEvents :: "axios \<Rightarrow> obj option \<Rightarrow> json io" where
  "listConversationEvents ax ps =
     destructure ps ''conversation_id'' (\<lambda>p.
       response_data (axios_get ax (''/conversations/'' @ tpl (js_get p ''conversation_id'') @ ''/events'')
         (Some (JObj (rest [''conversation_id''] p)))))"

definition listConversationFollowers :: "axios \<Rightarrow> json option \<Rightarrow> json io" where
  "listConversationFollowers ax conversationId =
     response_data (axios_get ax (''/conversations/'' @ tpl conversationId @ ''/followers'') None)"

definition addConversationFollowers :: "axios \<Rightarrow> obj option \<Rightarrow> json io" where
  "addConversationFollowers ax ps =
     destructure ps ''conversation_id'' (\<lambda>p.
       response_data (axios_post ax (''/conversations/'' @ tpl (js_get p ''conversation_id'') @ ''/followers'')
         (Some (JObj (pick [''teammate_ids''] p)))))"

definition deleteConversationFollowers :: "axios \<Rightarrow> obj option \<Rightarrow> json io" where
  "deleteConversationFollowers ax ps =
     destructure ps ''conversation_id'' (\<lambda>p.
       response_data (axios_delete ax (''/conversations/'' @ tpl (js_get p ''conversation_id'') @ ''/followers'')
         (Some (JObj (pick [''teammate_ids''] p)))))"

definition listConversationInboxes :: "axios \<Rightarrow> json option \<Rightarrow> json io" where
  "listConversationInboxes ax conversationId =
     response_data (axios_get ax (''/conversations/'' @ tpl conversationId @ ''/inboxes'') None)"

definition addConversationLink :: "axios \<Rightarrow> obj option \<Rightarrow> json io" where
  "addConversationLink ax ps =
     destructure ps ''conversation_id'' (\<lambda>p.
       response_data (axios_post ax (''/conversations/'' @ tpl (js_get p ''conversation_id'') @ ''/links'')
         (Some (JObj (pick [''link_ids''] p)))))"

definition removeConversationLinks :: "axios \<Rightarrow> obj option \<Rightarrow> json io" where
  "removeConversationLinks ax ps =
     destructure ps ''conversation_id'' (\<lambda>p.
       response_data (axios_delete ax (''/conversations/'' @ tpl (js_get p ''conversation_id'') @ ''/links'')
         (Some (JObj (pick [''link_ids''] p)))))"

definition updateConversationReminders :: "axios \<Rightarrow> obj option \<Rightarrow> json io" where
  "updateConversationReminders ax ps =
     destructure ps ''conversation_id'' (\<lambda>p.
       response_data (axios_patch ax (''/conversations/'' @ tpl (js_get p ''conversation_id'') @ ''/reminders'')
         (Some (JObj (rest [''conversation_id''] p)))))"

definition addConversationTag :: "axios \<Rightarrow> obj option \<Rightarrow> json io" where
  "addConversationTag ax ps =
     destructure ps ''conversation_id'' (\<lambda>p.
       response_data (axios_post ax (''/conversations/'' @ tpl (js_get p ''conversation_id'') @ ''/tags'')
         (Some (JObj (pick [''tag_ids''] p)))))"

definition removeConversationTag :: "axios \<Rightarrow> obj option \<Rightarrow> json io" where
  "removeConversationTag ax ps =
     destructure ps ''conversation_id'' (\<lambda>p.
       response_data (axios_delete ax (''/conversations/'' @ tpl (js_get p ''conversation_id'') @ ''/tags'')
         (Some (JObj (pick [''tag_ids''] p)))))"

definition listAccountCustomFields :: "axios \<Rightarrow> json io" where
  "listAccountCustomFields ax =
     response_data (axios_get ax ''/accounts/custom_fields'' None)"

definition listContactCustomFields :: "axios \<Rightarrow> json io" where
  "listContactCustomFields ax =
     response_data (axios_get ax ''/contacts/custom_fields'' None)"

definition listConversationCustomFields :: "axios \<Rightarrow> json io" where
  "listConversationCustomFields ax =
     response_data (axios_get ax ''/conversations/custom_fields'' None)"

definition listCustomFields :: "axios \<Rightarrow> json io" where
  "listCustomFields ax =
     response_data (axios_get ax ''/custom_fields'' None)"

definition listInboxCustomFields :: "axios \<Rightarrow> json io" where
  "listInboxCustomFields ax =
     response_data (axios_get ax ''/inboxes/custom_fields'' None)"

definition listLinkCustomFields :: "axios \<Rightarrow> json io" where
  "listLinkCustomFields ax =
     response_data (axios_get ax ''/links/custom_fields'' None)"

definition listTeammateCustomFields :: "axios \<Rightarrow> json io" where
  "listTeammateCustomFields ax =
     response_data (axios_get ax ''/teammates/custom_fields'' None)"

definition createDraft :: "axios \<Rightarrow> obj option \<Rightarrow> json io" where
  "createDraft ax ps =
     response_data (axios_post ax ''/drafts'' (map_option JObj ps))"

definition listConversationDrafts :: "axios \<Rightarrow> json option \<Rightarrow> json io" where
  "listConversationDrafts ax conversationId =
     response_data (axios_get ax (''/conversations/'' @ tpl conversationId @ ''/drafts'') None)"

definition createDraftReply :: "axios \<Rightarrow> obj option \<Rightarrow> json io" where
  "createDraftReply ax ps =
     destructure ps ''channel_id'' (\<lambda>p.
       response_data (axios_post ax (''/channels/'' @ tpl (js_get p ''channel_id'') @ ''/drafts'')
         (Some (JObj (rest [''channel_id''] p)))))"

definition deleteDraft :: "axios \<Rightarrow> obj option \<Rightarrow> json io" where
  "deleteDraft ax ps =
     destructure ps ''draft_id'' (\<lambda>p.
       response_data (axios_delete ax (''/drafts/'' @ tpl (js_get p ''draft_id''))
         (Some (JObj (pick [''version''] p)))))"

definition editDraft :: "axios \<Rightarrow> obj option \<Rightarrow> json io" where
  "editDraft ax ps =
     destructure ps ''draft_id'' (\<lambda>p.
       response_data (axios_patch ax (''/drafts/'' @ tpl (js_get p ''draft_id''))
         (Some (JObj (pick [''version''] p @ rest [''draft_id'', ''version''] p)))))"

definition listEvents :: "axios \<Rightarrow> obj option \<Rightarrow> json io" where
  "listEvents ax ps =
     response_data (axios_get ax ''/events'' (map_option JObj ps))"

definition getEvent :: "axios \<Rightarrow> json option \<Rightarrow> json io" where
  "getEvent ax eventId =
     response_data (axios_get ax (''/events/'' @ tpl eventId) None)"

definition createInbox :: "axios \<Rightarrow> obj option \<Rightarrow> json io" where
  "createInbox ax ps =
     response_data (axios_post ax ''/inboxes'' (map_option JObj ps))"

definition listInboxChannels :: "axios \<Rightarrow> json option \<Rightarrow> json io" where
  "listInboxChannels ax inboxId =
     response_data (axios_get ax (''/inboxes/'' @ tpl inboxId @ ''/channels'') None)"

definition listInboxConversations :: "axios \<Rightarrow> obj option \<Rightarrow> json io" where
  "listInboxConversations ax ps =
     destructure ps ''inbox_id'' (\<lambda>p.
       response_data (axios_get ax (''/inboxes/'' @ tpl (js_get p ''inbox_id'') @ ''/conversations'')
         (Some (JObj (rest [''inbox_id''] p)))))"

definition listInboxAccess :: "axios \<Rightarrow> json option \<Rightarrow> json io" where
  "listInboxAccess ax inboxId =
     response_data (axios_get ax (''/inboxes/'' @ tpl inboxId @ ''/access'') None)"

definition addInboxAccess :: "axios \<Rightarrow> obj option \<Rightarrow> json io" where
  "addInboxAccess ax ps =
     destructure ps ''inbox_id'' (\<lambda>p.
       response_data (axios_post ax (''/inboxes/'' @ tpl (js_get p ''inbox_id'') @ ''/access'')
         (Some (JObj (pick [''teammate_ids''] p)))))"

definition removeInboxAccess :: "axios \<Rightarrow> obj option \<Rightarrow> json io" where
  "removeInboxAccess ax ps =
     destructure ps ''inbox_id'' (\<lambda>p.
       response_data (axios_delete ax (''/inboxes/'' @ tpl (js_get p ''inbox_id'') @ ''/access'')
         (Some (JObj (pick [''teammate_ids''] p)))))"

definition listTeamInboxes :: "axios \<Rightarrow> json option \<Rightarrow> json io" where
  "listTeamInboxes ax teamId =
     response_data (axios_get ax (''/teams/'' @ tpl teamId @ ''/inboxes'') None)"

definition createTeamInbox :: "axios \<Rightarrow> obj option \<Rightarrow> json io" where
  "createTeamInbox ax ps =
     destructure ps ''team_id'' (\<lambda>p.
       response_data (axios_post ax (''/teams/'' @ tpl (js_get p ''team_id'') @ ''/inboxes'')
         (Some (JObj (rest [''team_id''] p)))))"

definition receiveCustomMessage :: "axios \<Rightarrow> obj option \<Rightarrow> json io" where
  "receiveCustomMessage ax ps =
     destructure ps ''channel_id'' (\<lambda>p.
       response_data (axios_post ax (''/channels/'' @ tpl (js_get p ''channel_id'') @ ''/incoming_messages'')
         (Some (JObj (rest [''channel_id''] p)))))"

definition importMessage :: "axios \<Rightarrow> obj option \<Rightarrow> json io" where
  "importMessage ax ps =
     destructure ps ''channel_id'' (\<lambda>p.
       response_data (axios_post ax (''/channels/'' @ tpl (js_get p ''channel_id'') @ ''/import'')
         (Some (JObj (rest [''channel_id''] p)))))"

definition getMessageSeenStatus :: "axios \<Rightarrow> json option \<Rightarrow> json io" where
  "getMessageSeenStatus ax messageId =
     response_data (axios_get ax (''/messages/'' @ tpl messageId @ ''/seen'') None)"

definition markMessageSeen :: "axios \<Rightarrow> json option \<Rightarrow> json io" where
  "markMessageSeen ax messageId =
     response_data (axios_post ax (''/messages/'' @ tpl messageId @ ''/seen'') None)"

definition listMessageTemplateFolders :: "axios \<Rightarrow> obj option \<Rightarrow> json io" where
  "listMessageTemplateFolders ax ps =
     response_data (axios_get ax ''/message_template_folders'' (map_option JObj ps))"

definition createMessageTemplateFolder :: "axios \<Rightarrow> obj option \<Rightarrow> json io" where
  "createMessageTemplateFolder ax ps =
     response_data (axios_post ax ''/message_template_folders'' (map_option JObj ps))"

definition getMessageTemplateFolder :: "axios \<Rightarrow> json option \<Rightarrow> json io" where
  "getMessageTemplateFolder ax folderId =
     response_data (axios_get ax (''/message_template_folders/'' @ tpl folderId) None)"

definition updateMessageTemplateFolder :: "axios \<Rightarrow> obj option \<Rightarrow> json io" where
  "updateMessageTemplateFolder ax ps =
     destructure ps ''folder_id'' (\<lambda>p.
       response_data (axios_patch ax (''/message_template_folders/'' @ tpl (js_get p ''folder_id''))
         (Some (JObj (rest [''folder_id''] p)))))"

definition deleteMessageTemplateFolder :: "axios \<Rightarrow> json option \<Rightarrow> json io" where
  "deleteMessageTemplateFolder ax folderId =
     response_data (axios_delete ax (''/message_template_folders/'' @ tpl folderId) None)"

definition listChildFolders :: "axios \<Rightarrow> json option \<Rightarrow> json io" where
  "listChildFolders ax folderId =
     response_data (axios_get ax (''/message_template_folders/'' @ tpl folderId @ ''/children'') None)"

definition createChildFolder :: "axios \<Rightarrow> obj option \<Rightarrow> json io" where
  "createChildFolder ax ps =
     destructure ps ''folder_id'' (\<lambda>p.
       response_data (axios_post ax (''/message_template_folders/'' @ tpl (js_get p ''folder_id'') @ ''/children'')
         (Some (JObj (rest [''folder_id''] p)))))"

definition listTeammateFolders :: "axios \<Rightarrow> json option \<Rightarrow> json io" where
  "listTeammateFolders ax teammateId =
     response_data (axios_get ax (''/teammates/'' @ tpl teammateId @ ''/message_template_folders'') None)"

definition createTeammateFolder :: "axios \<Rightarrow> obj option \<Rightarrow> json io" where
  "createTeammateFolder ax ps =
     destructure ps ''teammate_id'' (\<lambda>p.
       response_data (axios_post ax (''/teammates/'' @ tpl (js_get p ''teammate_id'') @ ''/message_template_folders'')
         (Some (JObj (rest [''teammate_id''] p)))))"

definition listTeamFolders :: "axios \<Rightarrow> json option \<Rightarrow> json io" where
  "listTeamFolders ax teamId =
     response_data (axios_get ax (''/teams/'' @ tpl teamId @ ''/message_template_folders'') None)"

definition listMessageTemplates :: "axios \<Rightarrow> obj option \<Rightarrow> json io" where
  "listMessageTemplates ax ps =
     response_data (axios_get ax ''/message_templates'' (map_option JObj ps))"

definition createMessageTemplate :: "axios \<Rightarrow> obj option \<Rightarrow> json io" where
  "createMessageTemplate ax ps =
     response_data (axios_post ax ''/message_templates'' (map_option JObj ps))"

definition getMessageTemplate :: "axios \<Rightarrow> json option \<Rightarrow> json io" where
  "getMessageTemplate ax templateId =
     response_data (axios_get ax (''/message_templates/'' @ tpl templateId) None)"

definition updateMessageTemplate :: "axios \<Rightarrow> obj option \<Rightarrow> json io" where
  "updateMessageTemplate ax ps =
     destructure ps ''template_id'' (\<lambda>p.
       response_data (axios_patch ax (''/message_templates/'' @ tpl (js_get p ''template_id''))
         (Some (JObj (rest [''template_id''] p)))))"

definition deleteMessageTemplate :: "axios \<Rightarrow> json option \<Rightarrow> json io" where
  "deleteMessageTemplate ax templateId =
     response_data (axios_delete ax (''/message_templates/'' @ tpl templateId) None)"

definition listChildTemplates :: "axios \<Rightarrow> json option \<Rightarrow> json io" where
  "listChildTemplates ax templateId =
     response_data (axios_get ax (''/message_templates/'' @ tpl templateId @ ''/children'') None)"

definition createChildTemplate :: "axios \<Rightarrow> obj option \<Rightarrow> json io" where
  "createChildTemplate ax ps =
     destructure ps ''template_id'' (\<lambda>p.
       response_data (axios_post ax (''/message_templates/'' @ tpl (js_get p ''template_id'') @ ''/children'')
         (Some (JObj (rest [''template_id''] p)))))"

definition getTag :: "axios \<Rightarrow> json option \<Rightarrow> json io" where
  "getTag ax tagId =
     response_data (axios_get ax (''/tags/'' @ tpl tagId) None)"

definition updateTag :: "axios \<Rightarrow> obj option \<Rightarrow> json io" where
  "updateTag ax ps =
     destructure ps ''tag_id'' (\<lambda>p.
       response_data (axios_patch ax (''/tags/'' @ tpl (js_get p ''tag_id''))
         (Some (JObj (rest [''tag_id''] p)))))"

definition deleteTag :: "axios \<Rightarrow> json option \<Rightarrow> json io" where
  "deleteTag ax tagId =
     response_data (axios_delete ax (''/tags/'' @ tpl tagId) None)"

definition listTagChildren :: "axios \<Rightarrow> json option \<Rightarrow> json io" where
  "listTagChildren ax tagId =
     response_data (axios_get ax (''/tags/'' @ tpl tagId @ ''/children'') None)"

definition createChildTag :: "axios \<Rightarrow> obj option \<Rightarrow> json io" where
  "createChildTag ax ps =
     destructure ps ''tag_id'' (\<lambda>p.
       response_data (axios_post ax (''/tags/'' @ tpl (js_get p ''tag_id'') @ ''/children'')
         (Some (JObj (rest [''tag_id''] p)))))"

definition listTaggedConversations :: "axios \<Rightarrow> obj option \<Rightarrow> json io" where
  "listTaggedConversations ax ps =
     destructure ps ''tag_id'' (\<lambda>p.
       response_data (axios_get ax (''/tags/'' @ tpl (js_get p ''tag_id'') @ ''/conversations'')
         (Some (JObj (rest [''tag_id''] p)))))"

definition listTeammateTags :: "axios \<Rightarrow> json option \<Rightarrow> json io" where
  "listTeammateTags ax teammateId =
     response_data (axios_get ax (''/teammates/'' @ tpl teammateId @ ''/tags'') None)"

definition createTeammateTag :: "axios \<Rightarrow> obj option \<Rightarrow> json io" where
  "createTeammateTag ax ps =
     destructure ps ''teammate_id'' (\<lambda>p.
       response_data (axios_post ax (''/teammates/'' @ tpl (js_get p ''teammate_id'') @ ''/tags'')
         (Some (JObj (rest [''teammate_id''] p)))))"

definition listTeamTags :: "axios \<Rightarrow> json option \<Rightarrow> json io" where
  "listTeamTags ax teamId =
     response_data (axios_get ax (''/teams/'' @ tpl teamId @ ''/tags'') None)"

definition createTeamTag :: "axios \<Rightarrow> obj option \<Rightarrow> json io" where
  "createTeamTag ax ps =
     destructure ps ''team_id'' (\<lambda>p.
       response_data (axios_post ax (''/teams/'' @ tpl (js_get p ''team_id'') @ ''/tags'')
         (Some (JObj (rest [''team_id''] p)))))"

definition updateTeammate :: "axios \<Rightarrow> obj option \<Rightarrow> json io" where
  "updateTeammate ax ps =
     destructure ps ''teammate_id'' (\<lambda>p.
       response_data (axios_patch ax (''/teammates/'' @ tpl (js_get p ''teammate_id''))
         (Some (JObj (rest [''teammate_id''] p)))))"

definition listTeammateConversations :: "axios \<Rightarrow> obj option \<Rightarrow> json io" where
  "listTeammateConversations ax ps =
     destructure ps ''teammate_id'' (\<lambda>p.
       response_data (axios_get ax (''/teammates/'' @ tpl (js_get p ''teammate_id'') @ ''/conversations'')
         (Some (JObj (rest [''teammate_id''] p)))))"

definition listTeammateInboxes :: "axios \<Rightarrow> json option \<Rightarrow> json io" where
  "listTeammateInboxes ax teammateId =
     response_data (axios_get ax (''/teammates/'' @ tpl teammateId @ ''/inboxes'') None)"

section \<open>The capability catalog and the dispatcher\<close>

text \<open>
  The \<open>name\<close> of each descriptor the \<open>ListTools\<close> handler returns, in catalog order
  (descriptions and input schemas are surfaced to the client only and are never consulted
  by the dispatcher).
\<close>

definition tool_names :: "string list" where
  "tool_names =
    [''list_conversations'', ''get_conversation'', ''search_conversations'',
     ''update_conversation'', ''list_conversation_messages'', ''get_message'', ''send_message'',
     ''reply_to_conversation'', ''list_contacts'', ''get_contact'', ''create_contact'',
     ''update_contact'', ''list_teammates'', ''get_teammate'', ''list_tags'', ''create_tag'',
     ''list_inboxes'', ''get_inbox'', ''list_conversation_comments'', ''add_comment'',
     ''get_analytics'', ''list_accounts'', ''create_account'', ''get_account'',
     ''update_account'', ''delete_account'', ''list_account_contacts'',
     ''add_contact_to_account'', ''remove_contact_from_account'', ''delete_contact'',
     ''merge_contacts'', ''list_contact_conversations'', ''list_contact_notes'',
     ''add_contact_note'', ''add_contact_handle'', ''delete_contact_handle'',
     ''list_teammate_contacts'', ''create_teammate_contact'', ''list_team_contacts'',
     ''list_channels'', ''create_channel'', ''get_channel'', ''update_channel'',
     ''validate_channel'', ''list_teammate_channels'', ''list_team_channels'',
     ''sync_inbound_message'', ''sync_outbound_message'', ''update_external_message_status'',
     ''sync_application_message_template'', ''get_comment'', ''update_comment'',
     ''list_comment_mentions'', ''add_comment_reply'', ''list_contact_groups'',
     ''create_contact_group'', ''delete_contact_group'', ''list_group_contacts'',
     ''add_contacts_to_group'', ''remove_contacts_from_group'', ''list_teammate_groups'',
     ''create_teammate_group'', ''list_team_groups'', ''create_team_group'',
     ''list_contact_lists'', ''create_contact_list'', ''delete_contact_list'',
     ''list_contact_list_contacts'', ''add_contacts_to_list'', ''remove_contacts_from_list'',
     ''list_teammate_contact_lists'', ''create_teammate_contact_list'',
     ''list_team_contact_lists'', ''create_team_contact_list'',
     ''create_discussion_conversation'', ''update_conversation_assignee'',
     ''list_conversation_events'', ''list_conversation_followers'',
     ''add_conversation_followers'', ''delete_conversation_followers'',
     ''list_conversation_inboxes'', ''add_conversation_link'', ''remove_conversation_links'',
     ''update_conversation_reminders'', ''add_conversation_tag'', ''remove_conversation_tag'',
     ''list_account_custom_fields'', ''list_contact_custom_fields'',
     ''list_conversation_custom_fields'', ''list_custom_fields'', ''list_inbox_custom_fields'',
     ''list_link_custom_fields'', ''list_teammate_custom_fields'', ''create_draft'',
     ''list_conversation_drafts'', ''create_draft_reply'', ''delete_draft'', ''edit_draft'',
     ''list_events'', ''get_event'', ''create_inbox'', ''list_inbox_channels'',
     ''list_inbox_conversations'', ''list_inbox_access'', ''add_inbox_access'',
     ''remove_inbox_access'', ''list_team_inboxes'', ''create_team_inbox'',
     ''receive_custom_message'', ''import_message'', ''get_message_seen_status'',
     ''mark_message_seen'', ''list_message_template_folders'',
     ''create_message_template_folder'', ''get_message_template_folder'',
     ''update_message_template_folder'', ''delete_message_template_folder'',
     ''list_child_folders'', ''create_child_folder'', ''list_teammate_folders'',
     ''create_teammate_folder'', ''list_team_folders'', ''list_message_templates'',
     ''create_message_template'', ''get_message_template'', ''update_message_template'',
     ''delete_message_template'', ''list_child_templates'', ''create_child_template'',
     ''get_tag'', ''update_tag'', ''delete_tag'', ''list_tag_children'', ''create_child_tag'',
     ''list_tagged_conversations'', ''list_teammate_tags'', ''create_teammate_tag'',
     ''list_team_tags'', ''create_team_tag'', ''update_teammate'',
     ''list_teammate_conversations'', ''list_teammate_inboxes'']"

text \<open>
  The \<open>switch (name)\<close> of the \<open>CallTool\<close> handler: each \<open>case\<close> label with the call it
  makes, in source order. The labels are distinct, so the first match is the only one.
\<close>

definition tool_cases :: "(string \<times> (axios \<Rightarrow> obj option \<Rightarrow> json io)) list" where
  "tool_cases =
    [(''list_conversations'', listConversations),
     (''get_conversation'', \<lambda>ax typedArgs. member typedArgs ''conversation_id'' (getConversation ax)),
     (''search_conversations'', \<lambda>ax typedArgs.
        member typedArgs ''query'' (\<lambda>query. member typedArgs ''limit'' (\<lambda>limit. searchConversations ax query limit))),
     (''update_conversation'', updateConversation),
     (''list_conversation_messages'', listConversationMessages),
     (''get_message'', \<lambda>ax typedArgs. member typedArgs ''message_id'' (getMessage ax)),
     (''send_message'', sendMessage),
     (''reply_to_conversation'', replyToConversation),
     (''list_contacts'', listContacts),
     (''get_contact'', \<lambda>ax typedArgs. member typedArgs ''contact_id'' (getContact ax)),
     (''create_contact'', createContact),
     (''update_contact'', updateContact),
     (''list_teammates'', listTeammates),
     (''get_teammate'', \<lambda>ax typedArgs. member typedArgs ''teammate_id'' (getTeammate ax)),
     (''list_tags'', listTags),
     (''create_tag'', createTag),
     (''list_inboxes'', listInboxes),
     (''get_inbox'', \<lambda>ax typedArgs. member typedArgs ''inbox_id'' (getInbox ax)),
     (''list_conversation_comments'', \<lambda>ax typedArgs. member typedArgs ''conversation_id'' (listConversationComments ax)),
     (''add_comment'', addComment),
     (''get_analytics'', getAnalytics),
     (''list_accounts'', listAccounts),
     (''create_account'', createAccount),
     (''get_account'', \<lambda>ax typedArgs. member typedArgs ''account_id'' (getAccount ax)),
     (''update_account'', updateAccount),
     (''delete_account'', \<lambda>ax typedArgs. member typedArgs ''account_id'' (deleteAccount ax)),
     (''list_account_contacts'', listAccountContacts),
     (''add_contact_to_account'', addContactToAccount),
     (''remove_contact_from_account'', removeContactFromAccount),
     (''delete_contact'', \<lambda>ax typedArgs. member typedArgs ''contact_id'' (deleteContact ax)),
     (''merge_contacts'', mergeContacts),
     (''list_contact_conversations'', listContactConversations),
     (''list_contact_notes'', \<lambda>ax typedArgs. member typedArgs ''contact_id'' (listContactNotes ax)),
     (''add_contact_note'', addContactNote),
     (''add_contact_handle'', addContactHandle),
     (''delete_contact_handle'', deleteContactHandle),
     (''list_teammate_contacts'', listTeammateContacts),
     (''create_teammate_contact'', createTeammateContact),
     (''list_team_contacts'', listTeamContacts),
     (''list_channels'', listChannels),
     (''create_channel'', createChannel),
     (''get_channel'', \<lambda>ax typedArgs. member typedArgs ''channel_id'' (getChannel ax)),
     (''update_channel'', updateChannel),
     (''validate_channel'', \<lambda>ax typedArgs. member typedArgs ''channel_id'' (validateChannel ax)),
     (''list_teammate_channels'', \<lambda>ax typedArgs. member typedArgs ''teammate_id'' (listTeammateChannels ax)),
     (''list_team_channels'', \<lambda>ax typedArgs. member typedArgs ''team_id'' (listTeamChannels ax)),
     (''sync_inbound_message'', syncInboundMessage),
     (''sync_outbound_message'', syncOutboundMessage),
     (''update_external_message_status'', updateExternalMessageStatus),
     (''sync_application_message_template'', syncApplicationMessageTemplate),
     (''get_comment'', \<lambda>ax typedArgs. member typedArgs ''comment_id'' (getComment ax)),
     (''update_comment'', updateComment),
     (''list_comment_mentions'', \<lambda>ax typedArgs. member typedArgs ''comment_id'' (listCommentMentions ax)),
     (''add_comment_reply'', addCommentReply),
     (''list_contact_groups'', listContactGroups),
     (''create_contact_group'', createContactGroup),
     (''delete_contact_group'', \<lambda>ax typedArgs. member typedArgs ''group_id'' (deleteContactGroup ax)),
     (''list_group_contacts'', \<lambda>ax typedArgs. member typedArgs ''group_id'' (listGroupContacts ax)),
     (''add_contacts_to_group'', addContactsToGroup),
     (''remove_contacts_from_group'', removeContactsFromGroup),
     (''list_teammate_groups'', \<lambda>ax typedArgs. member typedArgs ''teammate_id'' (listTeammateGroups ax)),
     (''create_teammate_group'', createTeammateGroup),
     (''list_team_groups'', \<lambda>ax typedArgs. member typedArgs ''team_id'' (listTeamGroups ax)),
     (''create_team_group'', createTeamGroup),
     (''list_contact_lists'', listContactLists),
     (''create_contact_list'', createContactList),
     (''delete_contact_list'', \<lambda>ax typedArgs. member typedArgs ''list_id'' (deleteContactList ax)),
     (''list_contact_list_contacts'', listContactListContacts),
     (''add_contacts_to_list'', addContactsToList),
     (''remove_contacts_from_list'', removeContactsFromList),
     (''list_teammate_contact_lists'', \<lambda>ax typedArgs. member typedArgs ''teammate_id'' (listTeammateContactLists ax)),
     (''create_teammate_contact_list'', createTeammateContactList),
     (''list_team_contact_lists'', \<lambda>ax typedArgs. member typedArgs ''team_id'' (listTeamContactLists ax)),
     (''create_team_contact_list'', createTeamContactList),
     (''create_discussion_conversation'', createDiscussionConversation),
     (''update_conversation_assignee'', updateConversationAssignee),
     (''list_conversation_events'', listConversationEvents),
     (''list_conversation_followers'', \<lambda>ax typedArgs. member typedArgs ''conversation_id'' (listConversationFollowers ax)),
     (''add_conversation_followers'', addConversationFollowers),
     (''delete_conversation_followers'', deleteConversationFollowers),
     (''list_conversation_inboxes'', \<lambda>ax typedArgs. member typedArgs ''conversation_id'' (listConversationInboxes ax)),
     (''add_conversation_link'', addConversationLink),
     (''remove_conversation_links'', removeConversationLinks),
     (''update_conversation_reminders'', updateConversationReminders),
     (''add_conversation_tag'', addConversationTag),
     (''remove_conversation_tag'', removeConversationTag),
     (''list_account_custom_fields'', \<lambda>ax typedArgs. listAccountCustomFields ax),
     (''list_contact_custom_fields'', \<lambda>ax typedArgs. listContactCustomFields ax),
     (''list_conversation_custom_fields'', \<lambda>ax typedArgs. listConversationCustomFields ax),
     (''list_custom_fields'', \<lambda>ax typedArgs. listCustomFields ax),
     (''list_inbox_custom_fields'', \<lambda>ax typedArgs. listInboxCustomFields ax),
     (''list_link_custom_fields'', \<lambda>ax typedArgs. listLinkCustomFields ax),
     (''list_teammate_custom_fields'', \<lambda>ax typedArgs. listTeammateCustomFields ax),
     (''create_draft'', createDraft),
     (''list_conversation_drafts'', \<lambda>ax typedArgs. member typedArgs ''conversation_id'' (listConversationDrafts ax)),
     (''create_draft_reply'', createDraftReply),
     (''delete_draft'', deleteDraft),
     (''edit_draft'', editDraft),
     (''list_events'', listEvents),
     (''get_event'', \<lambda>ax typedArgs. member typedArgs ''event_id'' (getEvent ax)),
     (''create_inbox'', createInbox),
     (''list_inbox_channels'', \<lambda>ax typedArgs. member typedArgs ''inbox_id'' (listInboxChannels ax)),
     (''list_inbox_conversations'', listInboxConversations),
     (''list_inbox_access'', \<lambda>ax typedArgs. member typedArgs ''inbox_id'' (listInboxAccess ax)),
     (''add_inbox_access'', addInboxAccess),
     (''remove_inbox_access'', removeInboxAccess),
     (''list_team_inboxes'', \<lambda>ax typedArgs. member typedArgs ''team_id'' (listTeamInboxes ax)),
     (''create_team_inbox'', createTeamInbox),
     (''receive_custom_message'', receiveCustomMessage),
     (''import_message'', importMessage),
     (''get_message_seen_status'', \<lambda>ax typedArgs. member typedArgs ''message_id'' (getMessageSeenStatus ax)),
     (''mark_message_seen'', \<lambda>ax typedArgs. member typedArgs ''message_id'' (markMessageSeen ax)),
     (''list_message_template_folders'', listMessageTemplateFolders),
     (''create_message_template_folder'', createMessageTemplateFolder),
     (''get_message_template_folder'', \<lambda>ax typedArgs. member typedArgs ''folder_id'' (getMessageTemplateFolder ax)),
     (''update_message_template_folder'', updateMessageTemplateFolder),
     (''delete_message_template_folder'', \<lambda>ax typedArgs. member typedArgs ''folder_id'' (deleteMessageTemplateFolder ax)),
     (''list_child_folders'', \<lambda>ax typedArgs. member typedArgs ''folder_id'' (listChildFolders ax)),
     (''create_child_folder'', createChildFolder),
     (''list_teammate_folders'', \<lambda>ax typedArgs. member typedArgs ''teammate_id'' (listTeammateFolders ax)),
     (''create_teammate_folder'', createTeammateFolder),
     (''list_team_folders'', \<lambda>ax typedArgs. member typedArgs ''team_id'' (listTeamFolders ax)),
     (''list_message_templates'', listMessageTemplates),
     (''create_message_template'', createMessageTemplate),
     (''get_message_template'', \<lambda>ax typedArgs. member typedArgs ''template_id'' (getMessageTemplate ax)),
     (''update_message_template'', updateMessageTemplate),
     (''delete_message_template'', \<lambda>ax typedArgs. member typedArgs ''template_id'' (deleteMessageTemplate ax)),
     (''list_child_templates'', \<lambda>ax typedArgs. member typedArgs ''template_id'' (listChildTemplates ax)),
     (''create_child_template'', createChildTemplate),
     (''get_tag'', \<lambda>ax typedArgs. member typedArgs ''tag_id'' (getTag ax)),
     (''update_tag'', updateTag),
     (''delete_tag'', \<lambda>ax typedArgs. member typedArgs ''tag_id'' (deleteTag ax)),
     (''list_tag_children'', \<lambda>ax typedArgs. member typedArgs ''tag_id'' (listTagChildren ax)),
     (''create_child_tag'', createChildTag),
     (''list_tagged_conversations'', listTaggedConversations),
     (''list_teammate_tags'', \<lambda>ax typedArgs. member typedArgs ''teammate_id'' (listTeammateTags ax)),
     (''create_teammate_tag'', createTeammateTag),
     (''list_team_tags'', \<lambda>ax typedArgs. member typedArgs ''team_id'' (listTeamTags ax)),
     (''create_team_tag'', createTeamTag),
     (''update_teammate'', updateTeammate),
     (''list_teammate_conversations'', listTeammateConversations),
     (''list_teammate_inboxes'', \<lambda>ax typedArgs. member typedArgs ''teammate_id'' (listTeammateInboxes ax))]"

text \<open>
  The response envelope of a tool call has one text item. On success the text is
  \<open>JSON.stringify(result, null, 2)\<close>, kept here as the value that is serialised; on
  failure it is a message string and \<open>isError\<close> is set.
\<close>

datatype text_content = Stringify json | Text string

record tool_result =
  content :: text_content
  isError :: bool

text \<open>\<open>error.response?.data?.message\<close>: only an object body can have the property.\<close>

definition data_message :: "json \<Rightarrow> json option" where
  "data_message d = (case d of JObj ps \<Rightarrow> map_of ps ''message'' | _ \<Rightarrow> None)"

definition remote_message :: "js_error \<Rightarrow> json option" where
  "remote_message e = (case response e of None \<Rightarrow> None | Some r \<Rightarrow> data_message (data r))"

text \<open>\<open>error.response?.data?.message || error.message\<close>, as the template literal renders it.\<close>

definition error_message :: "js_error \<Rightarrow> string" where
  "error_message e =
     (case remote_message e of
        Some m \<Rightarrow> if truthy m then js_string m else message e
      | None \<Rightarrow> message e)"

text \<open>
  The \<open>CallTool\<close> handler: the switch inside \<open>try\<close>, the \<open>default\<close> case throwing, and
  the \<open>catch\<close> that turns whatever was thrown into an error envelope. The handler itself
  always returns.
\<close>

definition call_tool :: "axios \<Rightarrow> string \<Rightarrow> obj option \<Rightarrow> tool_result io" where
  "call_tool ax name typedArgs =
     (let r = (case map_of tool_cases name of
                 Some h \<Rightarrow> h ax typedArgs
               | None \<Rightarrow> throw (JsError (''Unknown tool: '' @ name) None))
      in (case fst r of
            Inr result \<Rightarrow> Inr \<lparr>content = Stringify result, isError = False\<rparr>
          | Inl error \<Rightarrow> Inr \<lparr>content = Text (''Error: '' @ error_message error), isError = True\<rparr>,
          snd r))"

section \<open>Resources\<close>





section \<open>Startup\<close>

text \<open>
  The main module reads \<open>FRONTAPP_API_TOKEN\<close> from the environment. \<open>!apiToken\<close> holds
  for an unset and for an empty variable; then the process writes one line to standard error
  and exits with status 1 before the server object exists.
\<close>

datatype startup = Exit (stderr: "string list") (exit_status: nat) | Serve (apiToken: string)

definition main :: "(string \<rightharpoonup> string) \<Rightarrow> startup" where
  "main env =
     (case env ''FRONTAPP_API_TOKEN'' of
        None \<Rightarrow> Exit [''Error: FRONTAPP_API_TOKEN environment variable is required''] 1
      | Some t \<Rightarrow>
          if t = [] then Exit [''Error: FRONTAPP_API_TOKEN environment variable is required''] 1
          else Serve t)"

text \<open>
  The process as a whole, given the tool calls that clients send it: its exit status, if it
  has exited, and the response to each call it served. The axios instance is created from
  the token (the \<open>Authorization\<close> header), so the remote's behaviour depends on it.
\<close>

definition process :: "(string \<Rightarrow> axios) \<Rightarrow> (string \<rightharpoonup> string) \<Rightarrow>
    (string \<times> obj option) list \<Rightarrow> nat option \<times> tool_result io list" where
  "process remote env calls =
     (case main env of
        Exit log c \<Rightarrow> (Some c, [])
      | Serve t \<Rightarrow> (None, map (\<lambda>(name, typedArgs). call_tool (remote t) name typedArgs) calls))"

section \<open>Path parameters\<close>

text \<open>
  For each tool, in catalog order, the argument fields that fill the interpolated segments
  of its URL: the names destructured from \<open>params\<close> that occur in the adapter's
  template literal, or the field the dispatcher reads and passes as the identifier; none
  where the URL is fixed.
\<close>

definition path_table :: "(string \<times> string list) list" where
  "path_table =
    [(''list_conversations'', []), (''get_conversation'', [''conversation_id'']),
     (''search_conversations'', []), (''update_conversation'', [''conversation_id'']),
     (''list_conversation_messages'', [''conversation_id'']),
     (''get_message'', [''message_id'']), (''send_message'', [''channel_id'']),
     (''reply_to_conversation'', [''conversation_id'']), (''list_contacts'', []),
     (''get_contact'', [''contact_id'']), (''create_contact'', []),
     (''update_contact'', [''contact_id'']), (''list_teammates'', []),
     (''get_teammate'', [''teammate_id'']), (''list_tags'', []), (''create_tag'', []),
     (''list_inboxes'', []), (''get_inbox'', [''inbox_id'']),
     (''list_conversation_comments'', [''conversation_id'']),
     (''add_comment'', [''conversation_id'']), (''get_analytics'', []), (''list_accounts'', []),
     (''create_account'', []), (''get_account'', [''account_id'']),
     (''update_account'', [''account_id'']), (''delete_account'', [''account_id'']),
     (''list_account_contacts'', [''account_id'']),
     (''add_contact_to_account'', [''account_id'']),
     (''remove_contact_from_account'', [''account_id'']),
     (''delete_contact'', [''contact_id'']), (''merge_contacts'', []),
     (''list_contact_conversations'', [''contact_id'']),
     (''list_contact_notes'', [''contact_id'']), (''add_contact_note'', [''contact_id'']),
     (''add_contact_handle'', [''contact_id'']), (''delete_contact_handle'', [''contact_id'']),
     (''list_teammate_contacts'', [''teammate_id'']),
     (''create_teammate_contact'', [''teammate_id'']), (''list_team_contacts'', [''team_id'']),
     (''list_channels'', []), (''create_channel'', []), (''get_channel'', [''channel_id'']),
     (''update_channel'', [''channel_id'']), (''validate_channel'', [''channel_id'']),
     (''list_teammate_channels'', [''teammate_id'']), (''list_team_channels'', [''team_id'']),
     (''sync_inbound_message'', [''channel_id'']),
     (''sync_outbound_message'', [''channel_id'']),
     (''update_external_message_status'', [''channel_id'', ''message_id'']),
     (''sync_application_message_template'', [''channel_id'']),
     (''get_comment'', [''comment_id'']), (''update_comment'', [''comment_id'']),
     (''list_comment_mentions'', [''comment_id'']), (''add_comment_reply'', [''comment_id'']),
     (''list_contact_groups'', []), (''create_contact_group'', []),
     (''delete_contact_group'', [''group_id'']), (''list_group_contacts'', [''group_id'']),
     (''add_contacts_to_group'', [''group_id'']),
     (''remove_contacts_from_group'', [''group_id'']),
     (''list_teammate_groups'', [''teammate_id'']),
     (''create_teammate_group'', [''teammate_id'']), (''list_team_groups'', [''team_id'']),
     (''create_team_group'', [''team_id'']), (''list_contact_lists'', []),
     (''create_contact_list'', []), (''delete_contact_list'', [''list_id'']),
     (''list_contact_list_contacts'', [''list_id'']), (''add_contacts_to_list'', [''list_id'']),
     (''remove_contacts_from_list'', [''list_id'']),
     (''list_teammate_contact_lists'', [''teammate_id'']),
     (''create_teammate_contact_list'', [''teammate_id'']),
     (''list_team_contact_lists'', [''team_id'']),
     (''create_team_contact_list'', [''team_id'']), (''create_discussion_conversation'', []),
     (''update_conversation_assignee'', [''conversation_id'']),
     (''list_conversation_events'', [''conversation_id'']),
     (''list_conversation_followers'', [''conversation_id'']),
     (''add_conversation_followers'', [''conversation_id'']),
     (''delete_conversation_followers'', [''conversation_id'']),
     (''list_conversation_inboxes'', [''conversation_id'']),
     (''add_conversation_link'', [''conversation_id'']),
     (''remove_conversation_links'', [''conversation_id'']),
     (''update_conversation_reminders'', [''conversation_id'']),
     (''add_conversation_tag'', [''conversation_id'']),
     (''remove_conversation_tag'', [''conversation_id'']), (''list_account_custom_fields'', []),
     (''list_contact_custom_fields'', []), (''list_conversation_custom_fields'', []),
     (''list_custom_fields'', []), (''list_inbox_custom_fields'', []),
     (''list_link_custom_fields'', []), (''list_teammate_custom_fields'', []),
     (''create_draft'', []), (''list_conversation_drafts'', [''conversation_id'']),
     (''create_draft_reply'', [''channel_id'']), (''delete_draft'', [''draft_id'']),
     (''edit_draft'', [''draft_id'']), (''list_events'', []), (''get_event'', [''event_id'']),
     (''create_inbox'', []), (''list_inbox_channels'', [''inbox_id'']),
     (''list_inbox_conversations'', [''inbox_id'']), (''list_inbox_access'', [''inbox_id'']),
     (''add_inbox_access'', [''inbox_id'']), (''remove_inbox_access'', [''inbox_id'']),
     (''list_team_inboxes'', [''team_id'']), (''create_team_inbox'', [''team_id'']),
     (''receive_custom_message'', [''channel_id'']), (''import_message'', [''channel_id'']),
     (''get_message_seen_status'', [''message_id'']), (''mark_message_seen'', [''message_id'']),
     (''list_message_template_folders'', []), (''create_message_template_folder'', []),
     (''get_message_template_folder'', [''folder_id'']),
     (''update_message_template_folder'', [''folder_id'']),
     (''delete_message_template_folder'', [''folder_id'']),
     (''list_child_folders'', [''folder_id'']), (''create_child_folder'', [''folder_id'']),
     (''list_teammate_folders'', [''teammate_id'']),
     (''create_teammate_folder'', [''teammate_id'']), (''list_team_folders'', [''team_id'']),
     (''list_message_templates'', []), (''create_message_template'', []),
     (''get_message_template'', [''template_id'']),
     (''update_message_template'', [''template_id'']),
     (''delete_message_template'', [''template_id'']),
     (''list_child_templates'', [''template_id'']),
     (''create_child_template'', [''template_id'']), (''get_tag'', [''tag_id'']),
     (''update_tag'', [''tag_id'']), (''delete_tag'', [''tag_id'']),
     (''list_tag_children'', [''tag_id'']), (''create_child_tag'', [''tag_id'']),
     (''list_tagged_conversations'', [''tag_id'']), (''list_teammate_tags'', [''teammate_id'']),
     (''create_teammate_tag'', [''teammate_id'']), (''list_team_tags'', [''team_id'']),
     (''create_team_tag'', [''team_id'']), (''update_teammate'', [''teammate_id'']),
     (''list_teammate_conversations'', [''teammate_id'']),
     (''list_teammate_inboxes'', [''teammate_id''])]"

definition path_fields :: "string \<Rightarrow> string list" where
  "path_fields name = (case map_of path_table name of None \<Rightarrow> [] | Some fs \<Rightarrow> fs)"

definition payload_keys :: "request \<Rightarrow> string set" where
  "payload_keys req = keys (params req) \<union> keys (body req)"



definition forwards_none :: "string list \<Rightarrow> 'a io \<Rightarrow> bool" where
  "forwards_none fs r = (\<forall>req \<in> set (snd r). \<forall>f \<in> set fs. f \<notin> payload_keys req)"

text \<open>Each of the given fields of \<open>p\<close>, rendered as a string, occurs in the URL of every request.\<close>

definition fills_url :: "string list \<Rightarrow> obj \<Rightarrow> 'a io \<Rightarrow> bool" where
  "fills_url fs p r =
     (\<forall>req \<in> set (snd r). \<forall>f \<in> set fs. sublist (tpl (js_get p f)) (url req))"

section \<open>Facts about the dispatcher\<close>

lemmas io_simps = throw_def axios_request_def axios_get_def axios_delete_def axios_post_def
  axios_put_def axios_patch_def response_data_def member_def destructure_def

lemma tool_cases_names: "map fst tool_cases = tool_names"
  by (simp add: tool_cases_def tool_names_def)

lemma unknown_case: "name \<notin> set tool_names \<Longrightarrow> map_of tool_cases name = None"
  using tool_cases_names by (metis map_of_eq_None_iff set_map)

lemma tool_names_distinct: "distinct tool_names"
  by (simp add: tool_names_def)

lemma tool_case_lookup: "(name, h) \<in> set tool_cases \<Longrightarrow> map_of tool_cases name = Some h"
  using tool_names_distinct tool_cases_names by (metis map_of_is_SomeI)


lemma path_fields_lookup: "map_of path_table name = Some fs \<Longrightarrow> path_fields name = fs"
  by (simp add: path_fields_def)


lemma case_reply: "map_of tool_cases ''reply_to_conversation'' = Some replyToConversation"
  by (rule tool_case_lookup) (simp add: tool_cases_def)


lemma case_template: "map_of tool_cases ''sync_application_message_template'' = Some syncApplicationMessageTemplate"
  by (rule tool_case_lookup) (simp add: tool_cases_def)











lemma case_get_contact:
  "map_of tool_cases ''get_contact'' =
     Some (\<lambda>ax typedArgs. member typedArgs ''contact_id'' (getContact ax))"
  by (rule tool_case_lookup) (simp add: tool_cases_def)

lemmas adapter_defs =
  listConversations_def getConversation_def searchConversations_def updateConversation_def
  listConversationMessages_def getMessage_def sendMessage_def replyToConversation_def
  listContacts_def getContact_def createContact_def updateContact_def listTeammates_def
  getTeammate_def listTags_def createTag_def listInboxes_def getInbox_def
  listConversationComments_def addComment_def getAnalytics_def listAccounts_def
  createAccount_def getAccount_def updateAccount_def deleteAccount_def listAccountContacts_def
  addContactToAccount_def removeContactFromAccount_def deleteContact_def mergeContacts_def
  listContactConversations_def listContactNotes_def addContactNote_def addContactHandle_def
  deleteContactHandle_def listTeammateContacts_def createTeammateContact_def
  listTeamContacts_def listChannels_def createChannel_def getChannel_def updateChannel_def
  validateChannel_def listTeammateChannels_def listTeamChannels_def syncInboundMessage_def
  syncOutboundMessage_def updateExternalMessageStatus_def syncApplicationMessageTemplate_def
  getComment_def updateComment_def listCommentMentions_def addCommentReply_def
  listContactGroups_def createContactGroup_def deleteContactGroup_def listGroupContacts_def
  addContactsToGroup_def removeContactsFromGroup_def listTeammateGroups_def
  createTeammateGroup_def listTeamGroups_def createTeamGroup_def listContactLists_def
  createContactList_def deleteContactList_def listContactListContacts_def
  addContactsToList_def removeContactsFromList_def listTeammateContactLists_def
  createTeammateContactList_def listTeamContactLists_def createTeamContactList_def
  createDiscussionConversation_def updateConversationAssignee_def listConversationEvents_def
  listConversationFollowers_def addConversationFollowers_def deleteConversationFollowers_def
  listConversationInboxes_def addConversationLink_def removeConversationLinks_def
  updateConversationReminders_def addConversationTag_def removeConversationTag_def
  listAccountCustomFields_def listContactCustomFields_def listConversationCustomFields_def
  listCustomFields_def listInboxCustomFields_def listLinkCustomFields_def
  listTeammateCustomFields_def createDraft_def listConversationDrafts_def createDraftReply_def
  deleteDraft_def editDraft_def listEvents_def getEvent_def createInbox_def
  listInboxChannels_def listInboxConversations_def listInboxAccess_def addInboxAccess_def
  removeInboxAccess_def listTeamInboxes_def createTeamInbox_def receiveCustomMessage_def
  importMessage_def getMessageSeenStatus_def markMessageSeen_def
  listMessageTemplateFolders_def createMessageTemplateFolder_def getMessageTemplateFolder_def
  updateMessageTemplateFolder_def deleteMessageTemplateFolder_def listChildFolders_def
  createChildFolder_def listTeammateFolders_def createTeammateFolder_def listTeamFolders_def
  listMessageTemplates_def createMessageTemplate_def getMessageTemplate_def
  updateMessageTemplate_def deleteMessageTemplate_def listChildTemplates_def
  createChildTemplate_def getTag_def updateTag_def deleteTag_def listTagChildren_def
  createChildTag_def listTaggedConversations_def listTeammateTags_def createTeammateTag_def
  listTeamTags_def createTeamTag_def updateTeammate_def listTeammateConversations_def
  listTeammateInboxes_def







lemma fn_throw: "forwards_none fs (throw e)"
  by (simp add: forwards_none_def throw_def)

lemma fn_response_data: "forwards_none fs (response_data r) = forwards_none fs r"
  by (simp add: forwards_none_def response_data_def)

lemma fn_axios:
  "forwards_none fs (axios_get ax u ps) = (\<forall>f \<in> set fs. f \<notin> keys ps)"
  "forwards_none fs (axios_delete ax u d) = (\<forall>f \<in> set fs. f \<notin> keys d)"
  "forwards_none fs (axios_post ax u d) = (\<forall>f \<in> set fs. f \<notin> keys d)"
  "forwards_none fs (axios_put ax u d) = (\<forall>f \<in> set fs. f \<notin> keys d)"
  "forwards_none fs (axios_patch ax u d) = (\<forall>f \<in> set fs. f \<notin> keys d)"
  by (simp_all add: forwards_none_def payload_keys_def axios_request_def axios_get_def
      axios_delete_def axios_post_def axios_put_def axios_patch_def keys_def)

lemma fn_destructure:
  "forwards_none fs (destructure ps k g) = (\<forall>p. ps = Some p \<longrightarrow> forwards_none fs (g p))"
  by (cases ps) (simp_all add: destructure_def fn_throw)

lemma fn_member:
  "forwards_none fs (member a k g) = (\<forall>p. a = Some p \<longrightarrow> forwards_none fs (g (js_get p k)))"
  by (cases a) (simp_all add: member_def fn_throw)

lemma keys_None: "keys None = {}"
  by (simp add: keys_def)

lemma keys_rest: "keys (Some (JObj (rest ks p))) = fst ` set p - set ks"
  by (auto simp: keys_def rest_def)

lemma keys_obj_lit: "keys (Some (JObj (obj_lit fs))) \<subseteq> fst ` set fs"
  by (induction fs rule: obj_lit.induct) (auto simp: keys_def)

lemma keys_pick: "f \<notin> set ks \<Longrightarrow> f \<notin> keys (Some (JObj (pick ks p)))"
  using keys_obj_lit [of "map (\<lambda>k. (k, js_get p k)) ks"] by (auto simp: pick_def)

lemma keys_append: "keys (Some (JObj (a @ b))) = keys (Some (JObj a)) \<union> keys (Some (JObj b))"
  by (auto simp: keys_def)

lemmas fn_simps = fn_throw fn_response_data fn_axios fn_destructure fn_member keys_None keys_rest
  keys_pick keys_append

lemma handlers_forward_no_path_field:
  "list_all2 (\<lambda>nh nf. fst nh = fst nf \<and>
      (fst nh \<noteq> ''sync_application_message_template'' \<longrightarrow>
        (\<forall>ax a. forwards_none (snd nf) (snd nh ax a)))) tool_cases path_table"
  unfolding tool_cases_def path_table_def
  by (simp add: adapter_defs fn_simps Let_def)

lemma aligned_lookup:
  "list_all2 (\<lambda>x y. fst x = fst y \<and> R (fst x) (snd x) (snd y)) xs ys \<Longrightarrow> map_of xs k = Some h \<Longrightarrow>
     \<exists>fs. map_of ys k = Some fs \<and> R k h fs"
  by (induction xs ys rule: list_all2_induct) (auto split: if_splits)


lemma call_tool_requests:
  "req \<in> set (snd (call_tool ax name typedArgs)) \<Longrightarrow>
     \<exists>h. map_of tool_cases name = Some h \<and> req \<in> set (snd (h ax typedArgs))"
  by (cases "map_of tool_cases name") (simp_all add: call_tool_def throw_def Let_def)














lemma fu_response_data: "fills_url fs p (response_data r) = fills_url fs p r"
  by (simp add: fills_url_def response_data_def)

lemma fu_axios:
  "fills_url fs p (axios_get ax u ps) = (\<forall>f \<in> set fs. sublist (tpl (js_get p f)) u)"
  "fills_url fs p (axios_delete ax u d) = (\<forall>f \<in> set fs. sublist (tpl (js_get p f)) u)"
  "fills_url fs p (axios_post ax u d) = (\<forall>f \<in> set fs. sublist (tpl (js_get p f)) u)"
  "fills_url fs p (axios_put ax u d) = (\<forall>f \<in> set fs. sublist (tpl (js_get p f)) u)"
  "fills_url fs p (axios_patch ax u d) = (\<forall>f \<in> set fs. sublist (tpl (js_get p f)) u)"
  by (simp_all add: fills_url_def axios_request_def axios_get_def axios_delete_def axios_post_def
      axios_put_def axios_patch_def)

lemma fu_destructure: "fills_url fs p (destructure (Some q) k g) = fills_url fs p (g q)"
  by (simp add: destructure_def)

lemma fu_member: "fills_url fs p (member (Some q) k g) = fills_url fs p (g (js_get q k))"
  by (simp add: member_def)

lemma sublist_skip: "sublist xs ys \<Longrightarrow> sublist xs (c # ys) = True"
  by (simp add: sublist_Cons_right)

lemma sublist_skip_append: "sublist xs ys \<Longrightarrow> sublist xs (zs @ ys) = True"
  by (auto simp: sublist_def) (metis append.assoc)

lemma sublist_here: "sublist xs (xs @ ys) = True" "sublist xs xs = True"
  by simp_all

lemmas fu_simps = fu_response_data fu_axios fu_destructure fu_member sublist_skip sublist_here sublist_skip_append

lemma handlers_fill_url:
  "list_all2 (\<lambda>nh nf. fst nh = fst nf \<and> (\<forall>ax p. fills_url (snd nf) p (snd nh ax (Some p))))
     tool_cases path_table"
  unfolding tool_cases_def path_table_def
  by (simp add: adapter_defs fu_simps Let_def del: sublist_Cons_right)



section \<open>Unknown operations\<close>

text \<open>
  C2. A name that no descriptor of the catalog carries is answered locally: the envelope is
  error-flagged, its text names the unknown tool, and no request is issued.
\<close>

theorem unknown_tool_is_local_error:
  assumes "name \<notin> set tool_names"
  shows "call_tool ax name typedArgs =
    (Inr \<lparr>content = Text (''Error: Unknown tool: '' @ name), isError = True\<rparr>, [])"
  using unknown_case [OF assms]
  by (simp add: call_tool_def throw_def error_message_def remote_message_def)

theorem unknown_tool_is_local_error_witness:
  "''does_not_exist'' \<notin> set tool_names \<and>
   call_tool (\<lambda>req. Inr \<lparr>status = 200, data = JNull\<rparr>) ''does_not_exist'' (Some []) =
    (Inr \<lparr>content = Text ''Error: Unknown tool: does_not_exist'', isError = True\<rparr>, [])"
proof -
  have h: "''does_not_exist'' \<notin> set tool_names" by (simp add: tool_names_def)
  show ?thesis
    using h unknown_tool_is_local_error [OF h, of "\<lambda>req. Inr \<lparr>status = 200, data = JNull\<rparr>" "Some []"]
    by simp
qed

section \<open>Replying to a conversation\<close>

text \<open>
  C6. With \<open>{conversation_id: "cnv_1", type: "comment", body: "hi"}\<close> the tool
  \<open>reply_to_conversation\<close> issues one POST to \<open>/conversations/cnv_1/comments\<close>, and with
  \<open>type: "reply"\<close> one POST to \<open>/conversations/cnv_1/messages\<close>; in both the body is
  \<open>{body: "hi"}\<close>: \<open>type\<close> and the path field are left out, the other field is forwarded.
\<close>

theorem reply_to_conversation_scenario:
  "snd (call_tool ax ''reply_to_conversation''
      (Some [(''conversation_id'', JStr ''cnv_1''), (''type'', JStr ''comment''), (''body'', JStr ''hi'')])) =
     [\<lparr>http_method = POST, url = ''/conversations/cnv_1/comments'', params = None,
       body = Some (JObj [(''body'', JStr ''hi'')])\<rparr>] \<and>
   snd (call_tool ax ''reply_to_conversation''
      (Some [(''conversation_id'', JStr ''cnv_1''), (''type'', JStr ''reply''), (''body'', JStr ''hi'')])) =
     [\<lparr>http_method = POST, url = ''/conversations/cnv_1/messages'', params = None,
       body = Some (JObj [(''body'', JStr ''hi'')])\<rparr>]"
  by (simp add: call_tool_def case_reply replyToConversation_def io_simps js_get_def rest_def tpl_def
      Let_def)



section \<open>Reading a contact\<close>

text \<open>
  C7. With \<open>{contact_id: "crd_123"}\<close> the tool \<open>get_contact\<close> issues exactly one request,
  a GET of \<open>/contacts/crd_123\<close> with no query and no body; when the remote answers with a
  response, the adapter returns the response's decoded data as it is, and the envelope
  carries that value, serialised, without the error flag.
\<close>

theorem get_contact_scenario:
  "snd (call_tool ax ''get_contact'' (Some [(''contact_id'', JStr ''crd_123'')])) =
     [\<lparr>http_method = GET, url = ''/contacts/crd_123'', params = None, body = None\<rparr>] \<and>
   (ax \<lparr>http_method = GET, url = ''/contacts/crd_123'', params = None, body = None\<rparr> = Inr resp \<longrightarrow>
      getContact ax (Some (JStr ''crd_123'')) =
        (Inr (data resp), [\<lparr>http_method = GET, url = ''/contacts/crd_123'', params = None, body = None\<rparr>]) \<and>
      fst (call_tool ax ''get_contact'' (Some [(''contact_id'', JStr ''crd_123'')])) =
        Inr \<lparr>content = Stringify (data resp), isError = False\<rparr>)"
  by (simp add: call_tool_def case_get_contact getContact_def io_simps js_get_def tpl_def Let_def)

theorem get_contact_scenario_witness:
  "snd (call_tool (\<lambda>req. Inr \<lparr>status = 200, data = JObj [(''id'', JStr ''crd_123'')]\<rparr>)
      ''get_contact'' (Some [(''contact_id'', JStr ''crd_123'')])) =
     [\<lparr>http_method = GET, url = ''/contacts/crd_123'', params = None, body = None\<rparr>] \<and>
   fst (call_tool (\<lambda>req. Inr \<lparr>status = 200, data = JObj [(''id'', JStr ''crd_123'')]\<rparr>)
      ''get_contact'' (Some [(''contact_id'', JStr ''crd_123'')])) =
     Inr \<lparr>content = Stringify (JObj [(''id'', JStr ''crd_123'')]), isError = False\<rparr>"
  using get_contact_scenario [of "\<lambda>req. Inr \<lparr>status = 200, data = JObj [(''id'', JStr ''crd_123'')]\<rparr>"
      "\<lparr>status = 200, data = JObj [(''id'', JStr ''crd_123'')]\<rparr>"]
  by simp

section \<open>Startup without a credential\<close>

text \<open>
  C8. When \<open>FRONTAPP_API_TOKEN\<close> is not set, the main module exits with status 1, which
  is not zero, after one line on standard error; the process serves no call at all, so the
  missing credential never shows up as the error of a call.
\<close>

theorem missing_token_is_fatal_at_startup:
  assumes "env ''FRONTAPP_API_TOKEN'' = None"
  shows "main env = Exit [''Error: FRONTAPP_API_TOKEN environment variable is required''] 1 \<and>
         exit_status (main env) \<noteq> 0 \<and>
         process remote env calls = (Some 1, [])"
  using assms by (simp add: main_def process_def)

theorem missing_token_is_fatal_at_startup_witness:
  "(Map.empty :: string \<rightharpoonup> string) ''FRONTAPP_API_TOKEN'' = None \<and>
   process (\<lambda>t req. Inr \<lparr>status = 200, data = JNull\<rparr>) Map.empty
     [(''get_contact'', Some [(''contact_id'', JStr ''crd_123'')])] = (Some 1, [])"
  using missing_token_is_fatal_at_startup [of Map.empty "\<lambda>t req. Inr \<lparr>status = 200, data = JNull\<rparr>"
      "[(''get_contact'', Some [(''contact_id'', JStr ''crd_123'')])]"]
  by simp

section \<open>Path fields and the forwarded payload\<close>

text \<open>
  The path table agrees with the adapters: whatever the arguments, each field the table
  lists for a tool occurs, rendered as a string, in the URL of the request the tool issues.
\<close>

lemma path_fields_fill_url:
  assumes "f \<in> set (path_fields name)"
    and "req \<in> set (snd (call_tool ax name (Some p)))"
  shows "sublist (tpl (js_get p f)) (url req)"
proof -
  from assms(2) obtain h where h: "map_of tool_cases name = Some h"
    and req: "req \<in> set (snd (h ax (Some p)))"
    using call_tool_requests by blast
  from aligned_lookup [where R = "\<lambda>n h fs. \<forall>ax p. fills_url fs p (h ax (Some p))",
      OF handlers_fill_url h]
  obtain fs where fs: "map_of path_table name = Some fs"
    and fill: "\<forall>ax p. fills_url fs p (h ax (Some p))"
    by blast
  from fs assms(1) have "f \<in> set fs" by (simp add: path_fields_lookup)
  with fill req show ?thesis by (auto simp: fills_url_def)
qed




text \<open>
  The keys of the payload, too, leave the path fields out wherever the adapter builds the
  payload itself; \<open>sync_application_message_template\<close> sends the caller's \<open>template\<close>
  value as the body, whose keys are the caller's own.
\<close>

lemma path_fields_not_payload_keys:
  assumes "name \<noteq> ''sync_application_message_template''"
    and "f \<in> set (path_fields name)"
    and "req \<in> set (snd (call_tool ax name typedArgs))"
  shows "f \<notin> payload_keys req"
proof -
  from assms(3) obtain h where h: "map_of tool_cases name = Some h"
    and req: "req \<in> set (snd (h ax typedArgs))"
    using call_tool_requests by blast
  from aligned_lookup [where R = "\<lambda>n h fs. n \<noteq> ''sync_application_message_template'' \<longrightarrow>
        (\<forall>ax a. forwards_none fs (h ax a))", OF handlers_forward_no_path_field h]
  obtain fs where fs: "map_of path_table name = Some fs"
    and none: "name \<noteq> ''sync_application_message_template'' \<longrightarrow> (\<forall>ax a. forwards_none fs (h ax a))"
    by blast
  from none assms(1) have "forwards_none fs (h ax typedArgs)" by blast
  moreover from fs assms(2) have "f \<in> set fs" by (simp add: path_fields_lookup)
  ultimately show ?thesis
    using req by (simp add: forwards_none_def)
qed

section \<open>Failed remote calls\<close>





section \<open>Draft edits and deletions\<close>






section \<open>Removal operations\<close>











section \<open>Unknown resources\<close>



end
